theory Spec2Isabelle
  imports Main
begin

section \<open>Data model of \<open>phoenixdb/cursor.py\<close>\<close>

text \<open>
  Exceptions are values. \<open>ProgrammingError\<close> is the only error class of
  \<open>phoenixdb.errors\<close> that the module raises by a name it has imported;
  \<open>NameError\<close>, \<open>IndexError\<close>, \<open>TypeError\<close> and \<open>StopIteration\<close> are the
  interpreter's own. \<open>Raised\<close> stands for whatever the remote client or a type
  constructor (\<open>Decimal\<close>, \<open>float\<close>) raises.
\<close>

datatype error =
    ProgrammingError string
  | NameError string
  | IndexError string
  | TypeError string
  | StopIteration
  | Raised string

text \<open>One entry of \<open>signature['columns']\<close>, with the keys the module reads.\<close>

record column =
  columnName :: string
  type_name :: string
  displaySize :: int
  precision :: int
  scale :: int
  nullable :: int
  columnClassName :: string

record signature =
  columns :: "column list"

text \<open>The named tuple \<open>ColumnDescription\<close>.\<close>

record ColumnDescription =
  name :: string
  type_code :: string
  display_size :: int
  internal_size :: "int option"
  cd_precision :: int
  cd_scale :: int
  null_ok :: bool

text \<open>The two constructors that \<open>_set_signature\<close> stores in \<open>_data_types\<close>.\<close>

datatype data_type = Decimal | Float

text \<open>
  A frame as the client returns it. A column value is \<open>None\<close> for Python's \<open>None\<close>
  and \<open>Some v\<close> otherwise.
\<close>

record 'v frame =
  frame_rows :: "'v option list list"
  frame_offset :: int
  frame_done :: bool

text \<open>One element of the list returned by \<open>prepareAndExecute\<close>.\<close>

record 'v result =
  ownStatement :: bool
  statementId :: int
  result_signature :: "signature option"
  firstFrame :: "'v frame option"
  updateCount :: int

text \<open>The dictionary returned by \<open>prepare\<close>.\<close>

record statement =
  statement_id :: int
  statement_signature :: "signature option"

text \<open>
  The requests that the cursor sends to \<open>self._connection._client\<close>, with the
  arguments in the order the module passes them: connection id, statement id, then
  the operation and \<open>maxRowCount\<close>, or the parameters, the offset and
  \<open>fetchMaxRowCount\<close> (an argument the call site leaves out is \<open>None\<close>).
\<close>

datatype 'v call =
    PrepareAndExecute int "int option" string int
  | Prepare int "int option" string int
  | Fetch int "int option" "'v option list option" "int option" int
  | CloseStatement int int

text \<open>
  The client is not part of the module. It is a parameter: each method answers from
  the requests made so far and its own arguments, with a value or an exception. The
  list of requests is the only state outside the cursor.
\<close>

record 'v client =
  prepareAndExecute ::
    "'v call list \<Rightarrow> int \<Rightarrow> int option \<Rightarrow> string \<Rightarrow> int \<Rightarrow> error + 'v result list"
  prepare ::
    "'v call list \<Rightarrow> int \<Rightarrow> int option \<Rightarrow> string \<Rightarrow> int \<Rightarrow> error + statement"
  fetch ::
    "'v call list \<Rightarrow> int \<Rightarrow> int option \<Rightarrow> 'v option list option \<Rightarrow> int option \<Rightarrow> int
      \<Rightarrow> error + 'v frame option"
  closeStatement ::
    "'v call list \<Rightarrow> int \<Rightarrow> int \<Rightarrow> error + unit"

text \<open>
  What a cursor reaches through \<open>self._connection\<close> (\<open>_client\<close>, \<open>_id\<close>,
  \<open>_closed\<close>), and the constructors \<open>Decimal\<close> and \<open>float\<close>, which are library
  code and may raise.
\<close>

record 'v connection =
  connection_client :: "'v client"
  connection_id :: int
  connection_closed :: bool
  construct :: "data_type \<Rightarrow> 'v \<Rightarrow> error + 'v"

text \<open>The attributes of a \<open>Cursor\<close> object.\<close>

record 'v cursor =
  cursor_id :: "int option"
  cursor_signature :: "signature option"
  cursor_data_types :: "(nat \<times> data_type) list"
  cursor_frame :: "'v frame option"
  cursor_pos :: "nat option"
  cursor_closed :: bool
  arraysize :: int
  itersize :: int
  cursor_updatecount :: int

type_synonym 'v log = "'v call list"

section \<open>Requests to the client\<close>

definition client_prepareAndExecute ::
  "'v connection \<Rightarrow> 'v log \<Rightarrow> int option \<Rightarrow> string \<Rightarrow> int
    \<Rightarrow> (error + 'v result list) \<times> 'v log" where
  "client_prepareAndExecute conn w sid operation maxRowCount =
     (prepareAndExecute (connection_client conn) w (connection_id conn) sid operation maxRowCount,
      w @ [PrepareAndExecute (connection_id conn) sid operation maxRowCount])"

definition client_prepare ::
  "'v connection \<Rightarrow> 'v log \<Rightarrow> int option \<Rightarrow> string \<Rightarrow> int
    \<Rightarrow> (error + statement) \<times> 'v log" where
  "client_prepare conn w sid operation maxRowCount =
     (prepare (connection_client conn) w (connection_id conn) sid operation maxRowCount,
      w @ [Prepare (connection_id conn) sid operation maxRowCount])"

definition client_fetch ::
  "'v connection \<Rightarrow> 'v log \<Rightarrow> int option \<Rightarrow> 'v option list option \<Rightarrow> int option \<Rightarrow> int
    \<Rightarrow> (error + 'v frame option) \<times> 'v log" where
  "client_fetch conn w sid parameters off fetchMaxRowCount =
     (fetch (connection_client conn) w (connection_id conn) sid parameters off fetchMaxRowCount,
      w @ [Fetch (connection_id conn) sid parameters off fetchMaxRowCount])"

definition client_closeStatement ::
  "'v connection \<Rightarrow> 'v log \<Rightarrow> int \<Rightarrow> (error + unit) \<times> 'v log" where
  "client_closeStatement conn w sid =
     (closeStatement (connection_client conn) w (connection_id conn) sid,
      w @ [CloseStatement (connection_id conn) sid])"

section \<open>The cursor\<close>

text \<open>\<open>__init__\<close>, with the class attributes \<open>arraysize = 1\<close> and \<open>itersize = 2000\<close>.\<close>

definition init :: "int option \<Rightarrow> 'v cursor" where
  "init sid =
     \<lparr>cursor_id = sid, cursor_signature = None, cursor_data_types = [],
      cursor_frame = None, cursor_pos = None, cursor_closed = False,
      arraysize = 1, itersize = 2000, cursor_updatecount = - 1\<rparr>"

text \<open>
  \<open>close\<close>. An exception of \<open>closeStatement\<close> leaves the method before any attribute
  is assigned.
\<close>

definition close ::
  "'v connection \<Rightarrow> 'v cursor \<Rightarrow> 'v log \<Rightarrow> (error + unit) \<times> 'v cursor \<times> 'v log" where
  "close conn c w =
     (if cursor_closed c then (Inl (ProgrammingError ''the cursor is already closed''), c, w)
      else
        (case cursor_id c of
           None \<Rightarrow>
             (Inr (),
              c\<lparr>cursor_signature := None, cursor_data_types := [], cursor_frame := None,
                cursor_pos := None, cursor_closed := True\<rparr>, w)
         | Some sid \<Rightarrow>
             (case client_closeStatement conn w sid of
                (Inl e, w1) \<Rightarrow> (Inl e, c, w1)
              | (Inr u, w1) \<Rightarrow>
                  (Inr (),
                   c\<lparr>cursor_id := None, cursor_signature := None, cursor_data_types := [],
                     cursor_frame := None, cursor_pos := None, cursor_closed := True\<rparr>, w1))))"

text \<open>\<open>__del__\<close> and \<open>__exit__\<close>, as the methods are written.\<close>

definition del ::
  "'v connection \<Rightarrow> 'v cursor \<Rightarrow> 'v log \<Rightarrow> (error + unit) \<times> 'v cursor \<times> 'v log" where
  "del conn c w =
     (if \<not> connection_closed conn \<and> \<not> cursor_closed c then close conn c w
      else (Inr (), c, w))"

definition exit ::
  "'v connection \<Rightarrow> 'v cursor \<Rightarrow> 'v log \<Rightarrow> (error + unit) \<times> 'v cursor \<times> 'v log" where
  "exit conn c w = (if \<not> cursor_closed c then close conn c w else (Inr (), c, w))"

text \<open>The properties \<open>closed\<close>, \<open>description\<close>, \<open>rowcount\<close> and \<open>rownumber\<close>.\<close>

definition closed :: "'v cursor \<Rightarrow> bool" where
  "closed c = cursor_closed c"

definition description :: "'v cursor \<Rightarrow> ColumnDescription list option" where
  "description c =
     (case cursor_signature c of
        None \<Rightarrow> None
      | Some s \<Rightarrow>
          Some (map (\<lambda>col.
            \<lparr>name = columnName col, type_code = type_name col, display_size = displaySize col,
             internal_size = None, cd_precision = precision col, cd_scale = scale col,
             null_ok = (nullable col \<noteq> 0)\<rparr>) (columns s)))"

definition rowcount :: "'v cursor \<Rightarrow> int" where
  "rowcount c = cursor_updatecount c"

definition rownumber :: "'v cursor \<Rightarrow> int option" where
  "rownumber c =
     (case (cursor_frame c, cursor_pos c) of
        (Some f, Some p) \<Rightarrow> Some (frame_offset f + int p)
      | _ \<Rightarrow> map_option int (cursor_pos c))"

text \<open>
  \<open>_set_id\<close>: the statement held before is released when it is another one; the new
  id is stored in every case.
\<close>

definition set_id ::
  "'v connection \<Rightarrow> int \<Rightarrow> 'v cursor \<Rightarrow> 'v log \<Rightarrow> (error + unit) \<times> 'v cursor \<times> 'v log" where
  "set_id conn sid c w =
     (case cursor_id c of
        None \<Rightarrow> (Inr (), c\<lparr>cursor_id := Some sid\<rparr>, w)
      | Some old \<Rightarrow>
          (if old \<noteq> sid then
             (case client_closeStatement conn w old of
                (Inl e, w1) \<Rightarrow> (Inl e, c, w1)
              | (Inr u, w1) \<Rightarrow> (Inr (), c\<lparr>cursor_id := Some sid\<rparr>, w1))
           else (Inr (), c\<lparr>cursor_id := Some sid\<rparr>, w)))"

text \<open>
  The loop of \<open>_set_signature\<close> over \<open>enumerate(signature['columns'])\<close>; \<open>i\<close> is the
  index of the first column of the list.
\<close>

fun data_types_of :: "nat \<Rightarrow> column list \<Rightarrow> (nat \<times> data_type) list" where
  "data_types_of i [] = []"
| "data_types_of i (col # cols) =
     (if columnClassName col = ''java.math.BigDecimal'' then [(i, Decimal)]
      else if columnClassName col = ''java.lang.Float''
              \<or> columnClassName col = ''java.lang.Double'' then [(i, Float)]
      else [])
     @ data_types_of (Suc i) cols"

definition set_signature :: "signature option \<Rightarrow> 'v cursor \<Rightarrow> 'v cursor" where
  "set_signature sg c =
     (case sg of
        None \<Rightarrow> c\<lparr>cursor_signature := None, cursor_data_types := []\<rparr>
      | Some s \<Rightarrow>
          c\<lparr>cursor_signature := Some s, cursor_data_types := data_types_of 0 (columns s)\<rparr>)"

text \<open>
  \<open>_set_frame\<close>. The module imports \<open>OperationalError\<close>, \<open>NotSupportedError\<close> and
  \<open>ProgrammingError\<close> only, so that evaluating the name \<open>InternalError\<close> in the
  \<open>raise\<close> statement raises \<open>NameError\<close>.
\<close>

definition set_frame :: "'v frame option \<Rightarrow> 'v cursor \<Rightarrow> (error + unit) \<times> 'v cursor" where
  "set_frame fr c =
     (let c1 = c\<lparr>cursor_frame := fr, cursor_pos := None\<rparr> in
      case fr of
        None \<Rightarrow> (Inr (), c1)
      | Some f \<Rightarrow>
          (if frame_rows f \<noteq> [] then (Inr (), c1\<lparr>cursor_pos := Some 0\<rparr>)
           else if \<not> frame_done f then (Inl (NameError ''InternalError''), c1)
           else (Inr (), c1)))"

text \<open>\<open>_fetch_next_frame\<close>; subscripting a frame that is \<open>None\<close> raises \<open>TypeError\<close>.\<close>

definition fetch_next_frame ::
  "'v connection \<Rightarrow> 'v cursor \<Rightarrow> 'v log \<Rightarrow> (error + unit) \<times> 'v cursor \<times> 'v log" where
  "fetch_next_frame conn c w =
     (case cursor_frame c of
        None \<Rightarrow> (Inl (TypeError ''NoneType''), c, w)
      | Some f \<Rightarrow>
          (let off = frame_offset f + int (length (frame_rows f)) in
           case client_fetch conn w (cursor_id c) None (Some off) (itersize c) of
             (Inl e, w1) \<Rightarrow> (Inl e, c, w1)
           | (Inr fr, w1) \<Rightarrow> (case set_frame fr c of (r, c1) \<Rightarrow> (r, c1, w1))))"

text \<open>\<open>execute\<close>.\<close>

definition execute ::
  "'v connection \<Rightarrow> string \<Rightarrow> 'v option list option \<Rightarrow> 'v cursor \<Rightarrow> 'v log
    \<Rightarrow> (error + unit) \<times> 'v cursor \<times> 'v log" where
  "execute conn operation parameters c0 w =
     (if cursor_closed c0 then (Inl (ProgrammingError ''the cursor is already closed''), c0, w)
      else
        (let c = c0\<lparr>cursor_updatecount := - 1\<rparr> in
         case parameters of
           None \<Rightarrow>
             (case client_prepareAndExecute conn w (cursor_id c) operation (itersize c) of
                (Inl e, w1) \<Rightarrow> (Inl e, c, w1)
              | (Inr results, w1) \<Rightarrow>
                  (case results of
                     [] \<Rightarrow> (Inr (), c, w1)
                   | res # rest \<Rightarrow>
                       (case (if ownStatement res then set_id conn (statementId res) c w1
                              else (Inr (), c, w1)) of
                          (Inl e, c2, w2) \<Rightarrow> (Inl e, c2, w2)
                        | (Inr u, c2, w2) \<Rightarrow>
                            (case set_frame (firstFrame res)
                                    (set_signature (result_signature res) c2) of
                               (Inl e, c4) \<Rightarrow> (Inl e, c4, w2)
                             | (Inr u', c4) \<Rightarrow>
                                 (Inr (), c4\<lparr>cursor_updatecount := updateCount res\<rparr>, w2)))))
         | Some ps \<Rightarrow>
             (case client_prepare conn w (cursor_id c) operation (itersize c) of
                (Inl e, w1) \<Rightarrow> (Inl e, c, w1)
              | (Inr st, w1) \<Rightarrow>
                  (case set_id conn (statement_id st) c w1 of
                     (Inl e, c2, w2) \<Rightarrow> (Inl e, c2, w2)
                   | (Inr u, c2, w2) \<Rightarrow>
                       (let c3 = set_signature (statement_signature st) c2 in
                        case client_fetch conn w2 (cursor_id c3) (Some ps) None (itersize c3) of
                          (Inl e, w3) \<Rightarrow> (Inl e, c3, w3)
                        | (Inr fr, w3) \<Rightarrow>
                            (case set_frame fr c3 of (r, c4) \<Rightarrow> (r, c4, w3)))))))"

text \<open>
  The loop of \<open>executemany\<close> over \<open>seq_of_parameters\<close>: each frame returned is dropped.
\<close>

fun executemany_loop ::
  "'v connection \<Rightarrow> int option \<Rightarrow> 'v option list list \<Rightarrow> 'v log \<Rightarrow> (error + unit) \<times> 'v log" where
  "executemany_loop conn sid [] w = (Inr (), w)"
| "executemany_loop conn sid (ps # rest) w =
     (case client_fetch conn w sid (Some ps) None 0 of
        (Inl e, w1) \<Rightarrow> (Inl e, w1)
      | (Inr fr, w1) \<Rightarrow> executemany_loop conn sid rest w1)"

text \<open>\<open>executemany\<close>; it assigns \<open>_signature\<close> itself and does not call \<open>_set_signature\<close>.\<close>

definition executemany ::
  "'v connection \<Rightarrow> string \<Rightarrow> 'v option list list \<Rightarrow> 'v cursor \<Rightarrow> 'v log
    \<Rightarrow> (error + unit) \<times> 'v cursor \<times> 'v log" where
  "executemany conn operation seq_of_parameters c0 w =
     (if cursor_closed c0 then (Inl (ProgrammingError ''the cursor is already closed''), c0, w)
      else
        (case set_frame None (c0\<lparr>cursor_updatecount := - 1\<rparr>) of
           (Inl e, c) \<Rightarrow> (Inl e, c, w)
         | (Inr u, c) \<Rightarrow>
             (case client_prepare conn w (cursor_id c) operation 0 of
                (Inl e, w1) \<Rightarrow> (Inl e, c, w1)
              | (Inr st, w1) \<Rightarrow>
                  (case set_id conn (statement_id st) c w1 of
                     (Inl e, c2, w2) \<Rightarrow> (Inl e, c2, w2)
                   | (Inr u', c2, w2) \<Rightarrow>
                       (let c3 = c2\<lparr>cursor_signature := statement_signature st\<rparr> in
                        case executemany_loop conn (cursor_id c3) seq_of_parameters w2 of
                          (r, w3) \<Rightarrow> (r, c3, w3))))))"

text \<open>
  The loop at the end of \<open>fetchone\<close> over \<open>self._data_types\<close>. The row is a list that
  the loop assigns to in place, so the row as far as it was converted is returned
  with the exception, if there is one. \<open>row[i]\<close> raises \<open>IndexError\<close> past the end.
\<close>

fun convert_row ::
  "'v connection \<Rightarrow> (nat \<times> data_type) list \<Rightarrow> 'v option list \<Rightarrow> error option \<times> 'v option list" where
  "convert_row conn [] row = (None, row)"
| "convert_row conn ((i, dt) # rest) row =
     (if length row \<le> i then (Some (IndexError ''list index out of range''), row)
      else
        (case row ! i of
           None \<Rightarrow> convert_row conn rest row
         | Some v \<Rightarrow>
             (case construct conn dt v of
                Inl e \<Rightarrow> (Some e, row)
              | Inr v' \<Rightarrow> convert_row conn rest (row[i := Some v']))))"

text \<open>
  The row read by \<open>fetchone\<close> is an element of the list \<open>frame['rows']\<close>. While that
  frame is still the cursor's frame, the assignments of the conversion loop are seen
  in it, at the index the row was read from.
\<close>

definition store_row :: "'v frame \<Rightarrow> nat \<Rightarrow> 'v option list \<Rightarrow> 'v cursor \<Rightarrow> 'v cursor" where
  "store_row f p row c =
     (if cursor_frame c = Some f
      then c\<lparr>cursor_frame := Some (f\<lparr>frame_rows := (frame_rows f)[p := row]\<rparr>)\<rparr>
      else c)"

definition convert_and_return ::
  "'v connection \<Rightarrow> 'v frame \<Rightarrow> nat \<Rightarrow> bool \<Rightarrow> 'v cursor \<Rightarrow> 'v log
    \<Rightarrow> (error + 'v option list option) \<times> 'v cursor \<times> 'v log" where
  "convert_and_return conn f p replaced c w =
     (case convert_row conn (cursor_data_types c) (frame_rows f ! p) of
        (r, row) \<Rightarrow>
          (let c1 = (if replaced then c else store_row f p row c) in
           case r of
             Some e \<Rightarrow> (Inl e, c1, w)
           | None \<Rightarrow> (Inr (Some row), c1, w)))"

text \<open>\<open>fetchone\<close>; the result \<open>Inr None\<close> is the method returning \<open>None\<close>.\<close>

definition fetchone ::
  "'v connection \<Rightarrow> 'v cursor \<Rightarrow> 'v log
    \<Rightarrow> (error + 'v option list option) \<times> 'v cursor \<times> 'v log" where
  "fetchone conn c w =
     (case cursor_frame c of
        None \<Rightarrow> (Inl (ProgrammingError ''no select statement was executed''), c, w)
      | Some f \<Rightarrow>
          (case cursor_pos c of
             None \<Rightarrow> (Inr None, c, w)
           | Some p \<Rightarrow>
               (if length (frame_rows f) \<le> p
                then (Inl (IndexError ''list index out of range''), c, w)
                else if length (frame_rows f) \<le> p + 1 then
                  (if \<not> frame_done f then
                     (case fetch_next_frame conn (c\<lparr>cursor_pos := None\<rparr>) w of
                        (Inl e, c1, w1) \<Rightarrow> (Inl e, c1, w1)
                      | (Inr u, c1, w1) \<Rightarrow> convert_and_return conn f p True c1 w1)
                   else convert_and_return conn f p False (c\<lparr>cursor_pos := None\<rparr>) w)
                else convert_and_return conn f p False (c\<lparr>cursor_pos := Some (p + 1)\<rparr>) w)))"

text \<open>
  The loop of \<open>fetchmany\<close>: \<open>while size > 0\<close> with \<open>size -= 1\<close> runs \<open>nat size\<close> times
  at most.
\<close>

fun fetchmany_loop ::
  "'v connection \<Rightarrow> nat \<Rightarrow> 'v option list list \<Rightarrow> 'v cursor \<Rightarrow> 'v log
    \<Rightarrow> (error + 'v option list list) \<times> 'v cursor \<times> 'v log" where
  "fetchmany_loop conn 0 acc c w = (Inr acc, c, w)"
| "fetchmany_loop conn (Suc n) acc c w =
     (case fetchone conn c w of
        (Inl e, c1, w1) \<Rightarrow> (Inl e, c1, w1)
      | (Inr None, c1, w1) \<Rightarrow> (Inr acc, c1, w1)
      | (Inr (Some row), c1, w1) \<Rightarrow> fetchmany_loop conn n (acc @ [row]) c1 w1)"

definition fetchmany ::
  "'v connection \<Rightarrow> int option \<Rightarrow> 'v cursor \<Rightarrow> 'v log
    \<Rightarrow> (error + 'v option list list) \<times> 'v cursor \<times> 'v log" where
  "fetchmany conn sz c w =
     (let sz = (case sz of None \<Rightarrow> arraysize c | Some n \<Rightarrow> n) in
      fetchmany_loop conn (nat sz) [] c w)"

text \<open>
  The loop of \<open>fetchall\<close> is \<open>while True\<close>: it ends when \<open>fetchone\<close> returns \<open>None\<close> or
  raises, and a client that never sends a last frame keeps it running. \<open>None\<close> is
  the loop that does not end.
\<close>

partial_function (option) fetchall_loop ::
  "'v connection \<Rightarrow> 'v option list list \<Rightarrow> 'v cursor \<Rightarrow> 'v log
    \<Rightarrow> ((error + 'v option list list) \<times> 'v cursor \<times> 'v log) option" where
  "fetchall_loop conn acc c w =
     (case fetchone conn c w of
        (Inl e, c1, w1) \<Rightarrow> Some (Inl e, c1, w1)
      | (Inr None, c1, w1) \<Rightarrow> Some (Inr acc, c1, w1)
      | (Inr (Some row), c1, w1) \<Rightarrow> fetchall_loop conn (acc @ [row]) c1 w1)"

definition fetchall ::
  "'v connection \<Rightarrow> 'v cursor \<Rightarrow> 'v log
    \<Rightarrow> ((error + 'v option list list) \<times> 'v cursor \<times> 'v log) option" where
  "fetchall conn c w = fetchall_loop conn [] c w"

text \<open>\<open>next\<close>, \<open>setinputsizes\<close> and \<open>setoutputsize\<close>.\<close>

definition cursor_next ::
  "'v connection \<Rightarrow> 'v cursor \<Rightarrow> 'v log \<Rightarrow> (error + 'v option list) \<times> 'v cursor \<times> 'v log" where
  "cursor_next conn c w =
     (case fetchone conn c w of
        (Inl e, c1, w1) \<Rightarrow> (Inl e, c1, w1)
      | (Inr None, c1, w1) \<Rightarrow> (Inl StopIteration, c1, w1)
      | (Inr (Some row), c1, w1) \<Rightarrow> (Inr row, c1, w1))"

definition setinputsizes ::
  "'a \<Rightarrow> 'v cursor \<Rightarrow> 'v log \<Rightarrow> (error + unit) \<times> 'v cursor \<times> 'v log" where
  "setinputsizes sizes c w = (Inr (), c, w)"

definition setoutputsize ::
  "'a \<Rightarrow> 'b \<Rightarrow> 'v cursor \<Rightarrow> 'v log \<Rightarrow> (error + unit) \<times> 'v cursor \<times> 'v log" where
  "setoutputsize sz col c w = (Inr (), c, w)"

text \<open>
  The unfolding equation of the loop, for evaluation on concrete cursors.
\<close>

declare fetchall_loop.simps [code]

section \<open>Requests and runs named by the specification\<close>

text \<open>
  The release request that \<open>_set_id\<close> sends when the cursor holds another statement
  than the one it is given.
\<close>

definition release_of :: "'v connection \<Rightarrow> int option \<Rightarrow> int \<Rightarrow> 'v call list" where
  "release_of conn held sid =
     (case held of
        None \<Rightarrow> []
      | Some old \<Rightarrow> if old \<noteq> sid then [CloseStatement (connection_id conn) old] else [])"

text \<open>
  Recognising the \<open>prepare\<close> requests in a list of requests, and the requests that
  the loop of \<open>executemany\<close> sends for a sequence of parameter sets.
\<close>

fun is_prepare :: "'v call \<Rightarrow> bool" where
  "is_prepare (Prepare cid sid operation m) = True"
| "is_prepare other = False"

definition fetches_of :: "'v connection \<Rightarrow> int option \<Rightarrow> 'v option list list \<Rightarrow> 'v call list" where
  "fetches_of conn sid seq_of_parameters =
     map (\<lambda>ps. Fetch (connection_id conn) sid (Some ps) None 0) seq_of_parameters"

text \<open>
  The specification's partition law speaks of successive calls of \<open>fetchmany(n)\<close>
  until one returns fewer than \<open>n\<close> rows, the rows of all calls concatenated. This is
  that caller, following the specification's words; an exception of a call leaves it.
  \<open>fetchmany_until_from\<close> is the same caller after a first batch of \<open>m\<close> rows at
  most.
\<close>

partial_function (option) fetchmany_until ::
  "'v connection \<Rightarrow> int \<Rightarrow> 'v option list list \<Rightarrow> 'v cursor \<Rightarrow> 'v log
    \<Rightarrow> ((error + 'v option list list) \<times> 'v cursor \<times> 'v log) option" where
  "fetchmany_until conn n acc c w =
     (case fetchmany conn (Some n) c w of
        (Inl e, c1, w1) \<Rightarrow> Some (Inl e, c1, w1)
      | (Inr batch, c1, w1) \<Rightarrow>
          if int (length batch) < n then Some (Inr (acc @ batch), c1, w1)
          else fetchmany_until conn n (acc @ batch) c1 w1)"

definition fetchmany_until_from ::
  "'v connection \<Rightarrow> int \<Rightarrow> nat \<Rightarrow> 'v option list list \<Rightarrow> 'v cursor \<Rightarrow> 'v log
    \<Rightarrow> ((error + 'v option list list) \<times> 'v cursor \<times> 'v log) option" where
  "fetchmany_until_from conn n m acc c w =
     (case fetchmany_loop conn m [] c w of
        (Inl e, c1, w1) \<Rightarrow> Some (Inl e, c1, w1)
      | (Inr batch, c1, w1) \<Rightarrow>
          if length batch < m then Some (Inr (acc @ batch), c1, w1)
          else fetchmany_until conn n (acc @ batch) c1 w1)"

text \<open>
  The offsets of the page requests in a list of requests, in the order they were sent,
  and the offset of the frame a cursor is reading.
\<close>

fun page_offsets :: "'v call list \<Rightarrow> int list" where
  "page_offsets [] = []"
| "page_offsets (Fetch cid sid ps (Some off) m # rest) = off # page_offsets rest"
| "page_offsets (other # rest) = page_offsets rest"

definition first_offset :: "'v cursor \<Rightarrow> int list" where
  "first_offset c =
     (case (cursor_frame c, cursor_pos c) of
        (Some f, Some p) \<Rightarrow> [frame_offset f]
      | _ \<Rightarrow> [])"

text \<open>
  A sequence of fetch operations called one after the other, whatever each returns or
  raises; \<open>None\<close> when a \<open>fetchall\<close> of the sequence does not end.
\<close>

datatype fetch_op = FetchOne | FetchMany "int option" | FetchAll

fun run_fetches ::
  "'v connection \<Rightarrow> fetch_op list \<Rightarrow> 'v cursor \<Rightarrow> 'v log \<Rightarrow> ('v cursor \<times> 'v log) option" where
  "run_fetches conn [] c w = Some (c, w)"
| "run_fetches conn (FetchOne # ops) c w =
     (case fetchone conn c w of (r, c1, w1) \<Rightarrow> run_fetches conn ops c1 w1)"
| "run_fetches conn (FetchMany sz # ops) c w =
     (case fetchmany conn sz c w of (r, c1, w1) \<Rightarrow> run_fetches conn ops c1 w1)"
| "run_fetches conn (FetchAll # ops) c w =
     (case fetchall conn c w of
        None \<Rightarrow> None
      | Some (r, c1, w1) \<Rightarrow> run_fetches conn ops c1 w1)"

text \<open>
  A client whose every page starts at the offset that was requested. The cursor does
  not check this: it takes the offset of the next request from the frame it was sent.
\<close>

definition returns_requested_offset :: "'v connection \<Rightarrow> bool" where
  "returns_requested_offset conn =
     (\<forall>w cid sid ps off m f.
        fetch (connection_client conn) w cid sid ps (Some off) m = Inr (Some f)
        \<longrightarrow> frame_offset f = off)"

text \<open>
  The invariant of paging: the offsets requested so far increase strictly, and none
  is beyond the frame that the cursor is reading.
\<close>

definition paging_inv :: "int list \<Rightarrow> 'v cursor \<Rightarrow> bool" where
  "paging_inv offs c =
     (sorted_wrt (<) offs
      \<and> (\<forall>f p. cursor_frame c = Some f \<and> cursor_pos c = Some p
             \<longrightarrow> (\<forall>off \<in> set offs. off \<le> frame_offset f)))"

section \<open>Concrete clients and cursors\<close>

text \<open>
  A client that answers every request with the same values, and a connection to it
  with id 1. The type constructors only tag the value they are given.
\<close>

definition fixed_client ::
  "string result list \<Rightarrow> statement \<Rightarrow> (int option \<Rightarrow> int \<Rightarrow> string frame option) \<Rightarrow> error + unit
    \<Rightarrow> string client" where
  "fixed_client results st pages released =
     \<lparr>prepareAndExecute = (\<lambda>w cid sid operation m. Inr results),
      prepare = (\<lambda>w cid sid operation m. Inr st),
      fetch = (\<lambda>w cid sid ps off m. Inr (pages off m)),
      closeStatement = (\<lambda>w cid sid. released)\<rparr>"

definition tagging :: "data_type \<Rightarrow> string \<Rightarrow> error + string" where
  "tagging dt v = (case dt of Decimal \<Rightarrow> Inr (''Decimal:'' @ v) | Float \<Rightarrow> Inr (''float:'' @ v))"

definition connect :: "string client \<Rightarrow> string connection" where
  "connect cl =
     \<lparr>connection_client = cl, connection_id = 1, connection_closed = False,
      construct = tagging\<rparr>"

text \<open>
  Frames, signatures and the clients built from them: one that sends an empty frame
  that is not the last, one for a statement that modifies three rows, one whose
  \<open>prepareAndExecute\<close> has nothing to report, one whose \<open>closeStatement\<close> raises, one
  whose \<open>prepare\<close> and \<open>prepareAndExecute\<close> report different column types, one that
  serves five rows in pages, and one that sends every page with offset 0.
\<close>

definition empty_unfinished :: "string frame" where
  "empty_unfinished = \<lparr>frame_rows = [], frame_offset = 0, frame_done = False\<rparr>"

definition finished_empty :: "string frame" where
  "finished_empty = \<lparr>frame_rows = [], frame_offset = 0, frame_done = True\<rparr>"

definition stalled_client :: "string client" where
  "stalled_client =
     fixed_client
       [\<lparr>ownStatement = True, statementId = 7, result_signature = None,
         firstFrame = Some empty_unfinished, updateCount = - 1\<rparr>]
       \<lparr>statement_id = 7, statement_signature = None\<rparr>
       (\<lambda>off m. Some empty_unfinished) (Inr ())"

definition dml_client :: "string client" where
  "dml_client =
     fixed_client
       [\<lparr>ownStatement = True, statementId = 7, result_signature = None,
         firstFrame = None, updateCount = 3\<rparr>]
       \<lparr>statement_id = 7, statement_signature = None\<rparr>
       (\<lambda>off m. Some finished_empty) (Inr ())"

definition idle_client :: "string client" where
  "idle_client =
     fixed_client [] \<lparr>statement_id = 7, statement_signature = None\<rparr>
       (\<lambda>off m. Some finished_empty) (Inr ())"

definition refusing_client :: "string client" where
  "refusing_client =
     fixed_client [] \<lparr>statement_id = 7, statement_signature = None\<rparr>
       (\<lambda>off m. Some finished_empty) (Inl (Raised ''connection lost''))"

definition decimal_signature :: signature where
  "decimal_signature =
     \<lparr>columns = [\<lparr>columnName = ''PRICE'', type_name = ''DECIMAL'', displaySize = 10,
                   precision = 10, scale = 2, nullable = 1,
                   columnClassName = ''java.math.BigDecimal''\<rparr>]\<rparr>"

definition double_signature :: signature where
  "double_signature =
     \<lparr>columns = [\<lparr>columnName = ''RATIO'', type_name = ''DOUBLE'', displaySize = 10,
                   precision = 10, scale = 0, nullable = 1,
                   columnClassName = ''java.lang.Double''\<rparr>]\<rparr>"

definition typed_client :: "string client" where
  "typed_client =
     fixed_client
       [\<lparr>ownStatement = True, statementId = 7, result_signature = Some decimal_signature,
         firstFrame = Some \<lparr>frame_rows = [ [Some ''1.50'']], frame_offset = 0, frame_done = True\<rparr>,
         updateCount = - 1\<rparr>]
       \<lparr>statement_id = 7, statement_signature = Some double_signature\<rparr>
       (\<lambda>off m. Some finished_empty) (Inr ())"

definition five_rows :: "string option list list" where
  "five_rows = [ [Some ''a''], [Some ''b''], [Some ''c''], [Some ''d''], [None]]"

definition page :: "string option list list \<Rightarrow> int \<Rightarrow> int \<Rightarrow> string frame" where
  "page all off m =
     \<lparr>frame_rows = take (nat m) (drop (nat off) all), frame_offset = off,
      frame_done = (length all \<le> nat off + nat m)\<rparr>"

definition paged_client :: "string client" where
  "paged_client =
     fixed_client
       [\<lparr>ownStatement = True, statementId = 7, result_signature = None,
         firstFrame = Some (page five_rows 0 2), updateCount = - 1\<rparr>]
       \<lparr>statement_id = 7, statement_signature = None\<rparr>
       (\<lambda>off m. Some (page five_rows (case off of None \<Rightarrow> 0 | Some i \<Rightarrow> i) m)) (Inr ())"

definition rewinding_client :: "string client" where
  "rewinding_client =
     fixed_client
       [\<lparr>ownStatement = True, statementId = 7, result_signature = None,
         firstFrame = Some (page five_rows 0 2), updateCount = - 1\<rparr>]
       \<lparr>statement_id = 7, statement_signature = None\<rparr>
       (\<lambda>off m. Some \<lparr>frame_rows = [ [Some ''c'']], frame_offset = 0, frame_done = False\<rparr>)
       (Inr ())"

text \<open>
  Cursors: one with a buffered frame of two rows that is the last, read up to its
  second row; the same after \<open>close\<close>; one on the last row of a frame that is not the
  last; one at the start of the first page of the five rows, and the same cursor once
  all five rows were read.
\<close>

definition buffered_cursor :: "string cursor" where
  "buffered_cursor =
     \<lparr>cursor_id = Some 7, cursor_signature = None, cursor_data_types = [],
      cursor_frame = Some \<lparr>frame_rows = [ [Some ''a''], [Some ''b'']], frame_offset = 0,
                           frame_done = True\<rparr>,
      cursor_pos = Some 1, cursor_closed = False, arraysize = 1, itersize = 2000,
      cursor_updatecount = 3\<rparr>"

definition closed_cursor :: "string cursor" where
  "closed_cursor =
     buffered_cursor\<lparr>cursor_id := None, cursor_signature := None, cursor_data_types := [],
       cursor_frame := None, cursor_pos := None, cursor_closed := True\<rparr>"

definition last_row_cursor :: "string cursor" where
  "last_row_cursor =
     \<lparr>cursor_id = Some 7, cursor_signature = None, cursor_data_types = [],
      cursor_frame = Some \<lparr>frame_rows = [ [Some ''a''], [Some ''b'']], frame_offset = 0,
                           frame_done = False\<rparr>,
      cursor_pos = Some 1, cursor_closed = False, arraysize = 1, itersize = 2000,
      cursor_updatecount = - 1\<rparr>"

definition paging_cursor :: "string cursor" where
  "paging_cursor =
     \<lparr>cursor_id = Some 7, cursor_signature = None, cursor_data_types = [],
      cursor_frame = Some \<lparr>frame_rows = [ [Some ''a''], [Some ''b'']], frame_offset = 0,
                           frame_done = False\<rparr>,
      cursor_pos = Some 0, cursor_closed = False, arraysize = 1, itersize = 2,
      cursor_updatecount = - 1\<rparr>"

definition drained_cursor :: "string cursor" where
  "drained_cursor =
     paging_cursor\<lparr>cursor_frame :=
        Some \<lparr>frame_rows = [ [None]], frame_offset = 4, frame_done = True\<rparr>,
        cursor_pos := None\<rparr>"

section \<open>Basic facts\<close>

lemmas client_defs = client_prepareAndExecute_def client_prepare_def client_fetch_def client_closeStatement_def

lemmas fetchone_defs = fetchone_def fetch_next_frame_def set_frame_def convert_and_return_def
  store_row_def client_defs

lemmas fixture_defs = fixed_client_def tagging_def connect_def empty_unfinished_def stalled_client_def

lemmas fixture2_defs = finished_empty_def dml_client_def idle_client_def buffered_cursor_def

lemmas fixture3_defs = refusing_client_def closed_cursor_def decimal_signature_def
  double_signature_def typed_client_def

lemmas fixture4_defs = five_rows_def page_def paged_client_def rewinding_client_def
  paging_cursor_def last_row_cursor_def

lemma set_frame_empty_unfinished:
  "frame_rows f = [] \<Longrightarrow> \<not> frame_done f \<Longrightarrow>
   set_frame (Some f) c = (Inl (NameError ''InternalError''), c\<lparr>cursor_frame := Some f, cursor_pos := None\<rparr>)"
  by (simp add: set_frame_def)

lemma set_id_released:
  assumes "\<forall>old. cursor_id c = Some old \<and> old \<noteq> sid \<longrightarrow>
             closeStatement (connection_client conn) w (connection_id conn) old = Inr ()"
  shows "set_id conn sid c w =
           (Inr (), c\<lparr>cursor_id := Some sid\<rparr>, w @ release_of conn (cursor_id c) sid)"
  using assms by (simp add: set_id_def release_of_def client_defs split: option.splits)


lemma set_id_updatecount:
  "set_id conn sid c w = (r, c2, w2) \<Longrightarrow> cursor_updatecount c2 = cursor_updatecount c"
  by (auto simp add: set_id_def split: option.splits if_splits prod.splits sum.splits)

lemma set_signature_updatecount [simp]:
  "cursor_updatecount (set_signature sg c) = cursor_updatecount c"
  by (simp add: set_signature_def split: option.splits)

lemma set_frame_updatecount:
  "set_frame fr c = (r, c2) \<Longrightarrow> cursor_updatecount c2 = cursor_updatecount c"
  by (auto simp add: set_frame_def Let_def split: option.splits if_splits)

lemma set_signature_data_types:
  "cursor_data_types (set_signature sg c) =
     (case sg of None \<Rightarrow> [] | Some s \<Rightarrow> data_types_of 0 (columns s))"
  and "cursor_signature (set_signature sg c) = sg"
  by (simp_all add: set_signature_def split: option.splits)

lemma fetchone_updatecount:
  "fetchone conn (c\<lparr>cursor_updatecount := u\<rparr>) w =
     (case fetchone conn c w of (r, c1, w1) \<Rightarrow> (r, c1\<lparr>cursor_updatecount := u\<rparr>, w1))"
  by (simp add: fetchone_def fetch_next_frame_def set_frame_def convert_and_return_def
      store_row_def client_defs Let_def split: option.splits prod.splits sum.splits)

lemma fetchone_buffered_row:
  assumes "cursor_frame c = Some f" and "cursor_pos c = Some p" and "p < length (frame_rows f)"
    and "Suc p < length (frame_rows f) \<or> frame_done f"
  shows "fst (fetchone conn c w) =
           (case convert_row conn (cursor_data_types c) (frame_rows f ! p) of
              (None, row) \<Rightarrow> Inr (Some row) | (Some e, row) \<Rightarrow> Inl e)"
    and "snd (snd (fetchone conn c w)) = w"
  using assms
  by (auto simp add: fetchone_def convert_and_return_def Let_def split: option.splits prod.splits)

section \<open>An empty frame that is not the last\<close>

text \<open>
  C1. A frame with no rows whose \<open>done\<close> flag is false must make the operation fail
  with the internal error of a protocol violation. Evaluated on such a frame, both as
  the first frame of \<open>execute\<close> and as the next page requested by \<open>fetchone\<close>, the
  operation does fail at once, no row is returned, \<open>_pos\<close> is \<open>None\<close> afterwards and no
  further page is requested; but the exception is \<open>NameError\<close>, since the module never
  imports \<open>InternalError\<close>.
\<close>

theorem empty_unfinished_frame_raises_NameError:
  "execute (connect stalled_client) ''select 1'' None (init None) [] =
     (Inl (NameError ''InternalError''),
      \<lparr>cursor_id = Some 7, cursor_signature = None, cursor_data_types = [],
       cursor_frame = Some empty_unfinished, cursor_pos = None, cursor_closed = False,
       arraysize = 1, itersize = 2000, cursor_updatecount = - 1\<rparr>,
      [PrepareAndExecute 1 None ''select 1'' 2000])
   \<and> fetchone (connect stalled_client) last_row_cursor [] =
     (Inl (NameError ''InternalError''),
      last_row_cursor\<lparr>cursor_frame := Some empty_unfinished, cursor_pos := None\<rparr>,
      [Fetch 1 (Some 7) None (Some 2) 2000])"
  by (simp add: execute_def fetchone_def fetch_next_frame_def init_def fixture_defs last_row_cursor_def client_defs set_id_def set_signature_def set_frame_def)

section \<open>Execute with parameters\<close>

text \<open>
  C2, as the code has it. On an open cursor, when the client answers the \<open>prepare\<close>
  request, the release of the statement held before (sent only when the cursor holds
  another statement than the prepared one) and the \<open>fetch\<close> request, \<open>execute\<close> with
  parameters sends exactly these requests in this order: \<open>prepare\<close> with the iteration
  batch size as \<open>maxRowCount\<close>, the release if any, and one \<open>fetch\<close> with the
  parameters and the iteration batch size. The prepared statement's id is adopted and
  its signature installed with the conversions derived from it; the fetched frame
  becomes the current frame, and the call fails only if that frame is empty and not
  the last.
\<close>

theorem execute_with_parameters:
  assumes "\<not> cursor_closed c"
    and "prepare (connection_client conn) w (connection_id conn) (cursor_id c) operation
           (itersize c) = Inr st"
    and "\<forall>old. cursor_id c = Some old \<and> old \<noteq> statement_id st \<longrightarrow>
           closeStatement (connection_client conn)
             (w @ [Prepare (connection_id conn) (cursor_id c) operation (itersize c)])
             (connection_id conn) old = Inr ()"
    and "fetch (connection_client conn)
           (w @ [Prepare (connection_id conn) (cursor_id c) operation (itersize c)]
              @ release_of conn (cursor_id c) (statement_id st))
           (connection_id conn) (Some (statement_id st)) (Some ps) None (itersize c) = Inr fr"
    and "execute conn operation (Some ps) c w = (r, c', w')"
  shows "w' = w @ [Prepare (connection_id conn) (cursor_id c) operation (itersize c)]
                @ release_of conn (cursor_id c) (statement_id st)
                @ [Fetch (connection_id conn) (Some (statement_id st)) (Some ps) None (itersize c)]
         \<and> cursor_id c' = Some (statement_id st)
         \<and> cursor_signature c' = statement_signature st
         \<and> cursor_data_types c' =
             (case statement_signature st of None \<Rightarrow> [] | Some s \<Rightarrow> data_types_of 0 (columns s))
         \<and> cursor_frame c' = fr
         \<and> cursor_pos c' =
             (case fr of None \<Rightarrow> None | Some f \<Rightarrow> if frame_rows f \<noteq> [] then Some 0 else None)
         \<and> r = (case fr of
                  None \<Rightarrow> Inr ()
                | Some f \<Rightarrow>
                    if frame_rows f = [] \<and> \<not> frame_done f then Inl (NameError ''InternalError'')
                    else Inr ())"
proof -
  let ?w1 = "w @ [Prepare (connection_id conn) (cursor_id c) operation (itersize c)]"
  have sid: "set_id conn (statement_id st) (c\<lparr>cursor_updatecount := - 1\<rparr>) ?w1 =
          (Inr (), c\<lparr>cursor_updatecount := - 1, cursor_id := Some (statement_id st)\<rparr>,
           ?w1 @ release_of conn (cursor_id c) (statement_id st))"
    using assms(3) set_id_released [of "c\<lparr>cursor_updatecount := - 1\<rparr>" "statement_id st" conn ?w1]
    by simp
  show ?thesis
    using assms(1,2,4,5) sid
    by (auto simp add: execute_def client_defs Let_def set_signature_def set_frame_def
        split: option.splits)
qed

text \<open>
  C2 at a cursor that holds statement 5 while the client prepares statement 7.
\<close>

theorem execute_with_parameters_witness:
  "\<not> cursor_closed (init (Some 5) :: string cursor) \<and>
   prepare (connection_client (connect dml_client)) [] 1 (Some 5) ''upsert'' 2000 =
     Inr \<lparr>statement_id = 7, statement_signature = None\<rparr> \<and>
   closeStatement (connection_client (connect dml_client)) [Prepare 1 (Some 5) ''upsert'' 2000] 1 5
     = Inr () \<and>
   snd (snd (execute (connect dml_client) ''upsert'' (Some [Some ''x'']) (init (Some 5)) [])) =
     [Prepare 1 (Some 5) ''upsert'' 2000, CloseStatement 1 5,
      Fetch 1 (Some 7) (Some [Some ''x'']) None 2000] \<and>
   cursor_id (fst (snd (execute (connect dml_client) ''upsert'' (Some [Some ''x''])
      (init (Some 5)) []))) = Some 7 \<and>
   cursor_frame (fst (snd (execute (connect dml_client) ''upsert'' (Some [Some ''x''])
      (init (Some 5)) []))) = Some finished_empty \<and>
   fst (execute (connect dml_client) ''upsert'' (Some [Some ''x'']) (init (Some 5)) []) = Inr ()"
  using execute_with_parameters [of "init (Some 5)" "connect dml_client" "[]" "''upsert''"
      "\<lparr>statement_id = 7, statement_signature = None\<rparr>" "[Some ''x'']" "Some finished_empty"
      "fst (execute (connect dml_client) ''upsert'' (Some [Some ''x'']) (init (Some 5)) [])"
      "fst (snd (execute (connect dml_client) ''upsert'' (Some [Some ''x'']) (init (Some 5)) []))"
      "snd (snd (execute (connect dml_client) ''upsert'' (Some [Some ''x'']) (init (Some 5)) []))"]
  by (simp add: init_def fixture_defs fixture2_defs release_of_def)

text \<open>
  C2 as stated asks for exactly two requests and an unbounded \<open>prepare\<close>. The cursor
  holding statement 5 sends three, and the \<open>prepare\<close> carries the batch size 2000.
\<close>

theorem execute_with_parameters_counterexample:
  "snd (snd (execute (connect dml_client) ''upsert'' (Some [Some ''x'']) (init (Some 5)) [])) =
     [Prepare 1 (Some 5) ''upsert'' 2000, CloseStatement 1 5,
      Fetch 1 (Some 7) (Some [Some ''x'']) None 2000]"
  by (simp add: execute_def init_def fixture_defs fixture2_defs client_defs set_id_def set_signature_def set_frame_def)

section \<open>Executemany\<close>



lemma filter_is_prepare_fetches [simp]: "filter is_prepare (fetches_of conn sid seq) = []"
  by (induction seq) (simp_all add: fetches_of_def)

lemma filter_is_prepare_release [simp]: "filter is_prepare (release_of conn held sid) = []"
  by (simp add: release_of_def split: option.splits)



section \<open>The table of conversions\<close>

text \<open>
  What \<open>_set_signature\<close> derives and what the loop of \<open>fetchone\<close> does with it: an
  entry for exactly the columns of class \<open>java.math.BigDecimal\<close>, \<open>java.lang.Float\<close> and
  \<open>java.lang.Double\<close>; the row keeps its length, a \<open>None\<close> stays \<open>None\<close>, and a column
  without an entry is not touched.
\<close>

lemma data_types_of_mem:
  "(i, dt) \<in> set (data_types_of k cols) \<longleftrightarrow>
     k \<le> i \<and> i < k + length cols \<and>
     (let cls = columnClassName (cols ! (i - k)) in
      if cls = ''java.math.BigDecimal'' then dt = Decimal
      else (cls = ''java.lang.Float'' \<or> cls = ''java.lang.Double'') \<and> dt = Float)"
proof (induction cols arbitrary: k)
  case Nil
  show ?case by simp
next
  case (Cons col cols)
  show ?case
  proof (cases "i = k")
    case True
    then show ?thesis using Cons.IH [of "Suc k"] by (auto simp add: Let_def)
  next
    case False
    then have "(i, dt) \<in> set (data_types_of k (col # cols)) \<longleftrightarrow>
               (i, dt) \<in> set (data_types_of (Suc k) cols)"
      by auto
    moreover have "(col # cols) ! (i - k) = cols ! (i - Suc k)" if "k \<le> i"
    proof -
      from that False have "i - k = Suc (i - Suc k)" by arith
      then show ?thesis by simp
    qed
    ultimately show ?thesis using Cons.IH [of "Suc k"] False by (auto simp add: Let_def)
  qed
qed

lemma convert_row_length:
  "length (snd (convert_row conn dts row)) = length row"
  by (induction conn dts row rule: convert_row.induct)
     (auto split: option.splits sum.splits)

lemma convert_row_None:
  "j < length row \<Longrightarrow> row ! j = None \<Longrightarrow> snd (convert_row conn dts row) ! j = None"
proof (induction conn dts row rule: convert_row.induct)
  case (1 conn row)
  then show ?case by simp
next
  case (2 conn i dt rest row)
  show ?case
  proof (cases "length row \<le> i")
    case True
    with 2 show ?thesis by simp
  next
    case False
    show ?thesis
    proof (cases "row ! i")
      case None
      with 2 False show ?thesis by simp
    next
      case (Some v)
      show ?thesis
      proof (cases "construct conn dt v")
        case (Inl e)
        with 2 False Some show ?thesis by simp
      next
        case (Inr v')
        from Some 2(4) have "i \<noteq> j" by auto
        with 2(3,4) have "j < length (row[i := Some v'])" "row[i := Some v'] ! j = None"
          by simp_all
        from 2(2) [OF False Some Inr this] False Some Inr show ?thesis by simp
      qed
    qed
  qed
qed

lemma convert_row_untouched:
  "j \<notin> fst ` set dts \<Longrightarrow> snd (convert_row conn dts row) ! j = row ! j"
  by (induction conn dts row rule: convert_row.induct)
     (auto split: option.splits sum.splits)

text \<open>
  C4. Every operation that installs a signature must derive the table of conversions
  again from it. \<open>execute\<close> does, through \<open>_set_signature\<close>; \<open>executemany\<close> assigns
  \<open>_signature\<close> directly. Evaluated after an \<open>execute\<close> that installed a decimal column,
  \<open>executemany\<close> installs the signature with a double column and leaves the table of the
  decimal column in place, where \<open>_set_signature\<close> would have derived the table of the
  double column.
\<close>

theorem executemany_keeps_stale_data_types:
  "cursor_data_types (fst (snd (execute (connect typed_client) ''select 1'' None (init None) [])))
     = [(0, Decimal)] \<and>
   cursor_signature
     (fst (snd (executemany (connect typed_client) ''upsert'' [ [Some ''2'']]
        (fst (snd (execute (connect typed_client) ''select 1'' None (init None) [])))
        [PrepareAndExecute 1 None ''select 1'' 2000]))) = Some double_signature \<and>
   cursor_data_types
     (fst (snd (executemany (connect typed_client) ''upsert'' [ [Some ''2'']]
        (fst (snd (execute (connect typed_client) ''select 1'' None (init None) [])))
        [PrepareAndExecute 1 None ''select 1'' 2000]))) = [(0, Decimal)] \<and>
   cursor_data_types (set_signature (Some double_signature) (init None :: string cursor))
     = [(0, Float)]"
  by (simp add: execute_def executemany_def init_def set_id_def set_signature_def set_frame_def
      client_defs fixture_defs fixture2_defs fixture3_defs)

section \<open>The update count\<close>

text \<open>
  C5, as the code has it. \<open>execute\<close> on an open cursor leaves the update count at -1,
  whatever it was before, except when it was called without parameters, the client
  returned a result and the call returned: then the update count is the
  \<open>updateCount\<close> of the first result, whatever the client reported there. With
  parameters it is always -1: the answer to \<open>fetch\<close> is a frame, which carries no
  count.
\<close>

theorem execute_updatecount:
  assumes "\<not> cursor_closed c"
  shows "cursor_updatecount (fst (snd (execute conn operation parameters c w))) =
           (case parameters of
              Some ps \<Rightarrow> - 1
            | None \<Rightarrow>
                (case prepareAndExecute (connection_client conn) w (connection_id conn)
                        (cursor_id c) operation (itersize c) of
                   Inr (res # rest) \<Rightarrow>
                     if fst (execute conn operation parameters c w) = Inr ()
                     then updateCount res else - 1
                 | _ \<Rightarrow> - 1))"
proof (cases parameters)
  case None
  show ?thesis
    using assms None
    by (auto simp add: execute_def client_defs Let_def
        split: sum.splits list.splits prod.splits
        dest!: set_id_updatecount set_frame_updatecount)
next
  case (Some ps)
  show ?thesis
    using assms Some
    by (auto simp add: execute_def client_defs Let_def
        split: sum.splits prod.splits
        dest!: set_id_updatecount set_frame_updatecount)
qed

text \<open>
  C5 at a statement that modifies three rows, executed without parameters.
\<close>

theorem execute_updatecount_witness:
  "\<not> cursor_closed (init None :: string cursor) \<and>
   cursor_updatecount (fst (snd (execute (connect dml_client) ''upsert'' None (init None) []))) = 3"
  using execute_updatecount [of "init None" "connect dml_client" "''upsert''" None "[]"]
  by (simp add: execute_def init_def fixture_defs fixture2_defs client_defs set_id_def set_signature_def set_frame_def)

text \<open>
  C5 as stated promises the count of affected rows, which is not negative, after a
  data-modifying \<open>execute\<close> with parameters. The same statement executed with
  parameters returns and leaves the update count negative.
\<close>

theorem execute_parameters_updatecount_counterexample:
  "fst (execute (connect dml_client) ''upsert'' (Some [Some ''x'']) (init None) []) = Inr () \<and>
   \<not> 0 \<le> cursor_updatecount
          (fst (snd (execute (connect dml_client) ''upsert'' (Some [Some ''x'']) (init None) [])))"
  by (simp add: execute_def init_def fixture_defs fixture2_defs client_defs set_id_def set_signature_def set_frame_def)

section \<open>Disposal of a cursor\<close>

text \<open>
  \<open>__del__\<close> as a method: it calls \<open>close\<close> when neither the connection nor the cursor
  is closed, and an exception of \<open>closeStatement\<close> leaves \<open>close\<close> and \<open>__del__\<close> as it
  was raised, the cursor unchanged. When the interpreter calls the method and what it
  does with an exception that leaves it is not part of the module.
\<close>

lemma del_is_guarded_close:
  "del conn c w =
     (if connection_closed conn \<or> cursor_closed c then (Inr (), c, w) else close conn c w)"
  by (simp add: del_def)

lemma del_passes_release_error:
  "\<not> connection_closed conn \<Longrightarrow> \<not> cursor_closed c \<Longrightarrow> cursor_id c = Some sid \<Longrightarrow>
   closeStatement (connection_client conn) w (connection_id conn) sid = Inl e \<Longrightarrow>
   del conn c w = (Inl e, c, w @ [CloseStatement (connection_id conn) sid])"
  by (simp add: del_def close_def client_defs)

section \<open>Close\<close>

text \<open>
  What \<open>close\<close> does. On a closed cursor it raises \<open>ProgrammingError\<close>. On an open
  cursor that holds a statement whose release raises, the exception leaves \<open>close\<close>
  after that one request and the cursor is unchanged. On an open cursor whose release,
  if any, succeeds, \<open>close\<close> sends the one release request when a statement is held
  and none otherwise, clears the statement id, the signature, the conversions, the
  frame and the position, and marks the cursor closed; afterwards \<open>close\<close>,
  \<open>execute\<close>, \<open>executemany\<close>, \<open>fetchone\<close>, \<open>next\<close>, \<open>fetchall\<close> and \<open>fetchmany\<close> with
  a positive size raise \<open>ProgrammingError\<close> and change nothing, while \<open>fetchmany\<close> with
  a size that is not positive returns the empty list.
\<close>

lemma close_protocol:
  "(cursor_closed c \<longrightarrow>
      close conn c w = (Inl (ProgrammingError ''the cursor is already closed''), c, w))
   \<and> (\<not> cursor_closed c \<and> cursor_id c = Some sid
        \<and> closeStatement (connection_client conn) w (connection_id conn) sid = Inl e \<longrightarrow>
      close conn c w = (Inl e, c, w @ [CloseStatement (connection_id conn) sid]))
   \<and> (\<not> cursor_closed c
        \<and> (\<forall>sid. cursor_id c = Some sid \<longrightarrow>
              closeStatement (connection_client conn) w (connection_id conn) sid = Inr ()) \<longrightarrow>
      (let c' = c\<lparr>cursor_id := None, cursor_signature := None, cursor_data_types := [],
                   cursor_frame := None, cursor_pos := None, cursor_closed := True\<rparr>
       in close conn c w =
            (Inr (), c',
             w @ (case cursor_id c of
                    None \<Rightarrow> []
                  | Some sid \<Rightarrow> [CloseStatement (connection_id conn) sid]))
          \<and> close conn c' w' = (Inl (ProgrammingError ''the cursor is already closed''), c', w')
          \<and> execute conn operation parameters c' w' = (Inl (ProgrammingError ''the cursor is already closed''), c', w')
          \<and> executemany conn operation seq_of_parameters c' w' = (Inl (ProgrammingError ''the cursor is already closed''), c', w')
          \<and> fetchone conn c' w' = (Inl (ProgrammingError ''no select statement was executed''), c', w')
          \<and> cursor_next conn c' w' = (Inl (ProgrammingError ''no select statement was executed''), c', w')
          \<and> fetchall conn c' w' = Some (Inl (ProgrammingError ''no select statement was executed''), c', w')
          \<and> (0 < n \<longrightarrow> fetchmany conn (Some n) c' w' = (Inl (ProgrammingError ''no select statement was executed''), c', w'))
          \<and> (n \<le> 0 \<longrightarrow> fetchmany conn (Some n) c' w' = (Inr [], c', w'))))"
proof -
  let ?c' = "c\<lparr>cursor_id := None, cursor_signature := None, cursor_data_types := [],
                   cursor_frame := None, cursor_pos := None, cursor_closed := True\<rparr>"
  let ?nf = "Inl (ProgrammingError ''no select statement was executed'')"
  have one: "fetchone conn ?c' w' = (?nf, ?c', w')"
    by (simp add: fetchone_def)
  have all: "fetchall conn ?c' w' = Some (?nf, ?c', w')"
    unfolding fetchall_def by (subst fetchall_loop.simps) (simp add: one)
  have many: "fetchmany conn (Some n) ?c' w' = (?nf, ?c', w')" if "0 < n"
  proof -
    from that obtain k where "nat n = Suc k" by (cases "nat n") auto
    then show ?thesis by (simp add: fetchmany_def one)
  qed
  have none: "fetchmany conn (Some n) ?c' w' = (Inr [], ?c', w')" if "n \<le> 0"
    using that by (simp add: fetchmany_def)
  have cl: "close conn c w =
            (Inr (), ?c',
             w @ (case cursor_id c of
                    None \<Rightarrow> []
                  | Some sid \<Rightarrow> [CloseStatement (connection_id conn) sid]))"
    if "\<not> cursor_closed c" "\<forall>sid. cursor_id c = Some sid \<longrightarrow>
              closeStatement (connection_client conn) w (connection_id conn) sid = Inr ()"
    using that by (simp add: close_def client_defs split: option.splits)
  have err: "close conn c w = (Inl e, c, w @ [CloseStatement (connection_id conn) sid])"
    if "\<not> cursor_closed c" "cursor_id c = Some sid"
      "closeStatement (connection_client conn) w (connection_id conn) sid = Inl e"
    using that by (simp add: close_def client_defs)
  show ?thesis
    using one all many none cl err
    by (simp add: Let_def close_def execute_def executemany_def cursor_next_def)
qed

text \<open>
  The same at a closed cursor, at an open cursor whose release raises, and at an open
  cursor whose release succeeds.
\<close>

lemma close_protocol_example:
  "cursor_closed closed_cursor \<and>
   close (connect idle_client) closed_cursor [] =
     (Inl (ProgrammingError ''the cursor is already closed''), closed_cursor, []) \<and>
   \<not> cursor_closed buffered_cursor \<and> cursor_id buffered_cursor = Some 7 \<and>
   closeStatement (connection_client (connect refusing_client)) [] 1 7
     = Inl (Raised ''connection lost'') \<and>
   close (connect refusing_client) buffered_cursor [] =
     (Inl (Raised ''connection lost''), buffered_cursor, [CloseStatement 1 7]) \<and>
   closeStatement (connection_client (connect idle_client)) [] 1 7 = Inr () \<and>
   close (connect idle_client) buffered_cursor [] = (Inr (), closed_cursor, [CloseStatement 1 7]) \<and>
   fetchone (connect idle_client) closed_cursor [CloseStatement 1 7] =
     (Inl (ProgrammingError ''no select statement was executed''), closed_cursor,
      [CloseStatement 1 7]) \<and>
   (0::int) < 2 \<and>
   fetchmany (connect idle_client) (Some 2) closed_cursor [CloseStatement 1 7] =
     (Inl (ProgrammingError ''no select statement was executed''), closed_cursor,
      [CloseStatement 1 7]) \<and>
   execute (connect idle_client) ''select 1'' None closed_cursor [CloseStatement 1 7] =
     (Inl (ProgrammingError ''the cursor is already closed''), closed_cursor,
      [CloseStatement 1 7])"
  using close_protocol [of closed_cursor "connect idle_client" "[]" 7 "Raised ''connection lost''"
          "[]" "''select 1''" None "[]" 2]
        close_protocol [of buffered_cursor "connect refusing_client" "[]" 7
          "Raised ''connection lost''" "[]" "''select 1''" None "[]" 2]
        close_protocol [of buffered_cursor "connect idle_client" "[]" 7
          "Raised ''connection lost''" "[CloseStatement 1 7]" "''select 1''" None "[]" 2]
  by (simp add: fixture_defs fixture2_defs fixture3_defs Let_def)

text \<open>
  C7. After \<open>close\<close> every operation must fail with \<open>ProgrammingError\<close>; the docstring
  of \<open>close\<close> says that no further operations are allowed once the cursor is closed,
  and \<open>execute\<close>, \<open>executemany\<close> and \<open>close\<close> test \<open>_closed\<close> first. The fetch
  operations have no such test and fail only where \<open>fetchone\<close> finds no frame, and
  \<open>setinputsizes\<close> and \<open>setoutputsize\<close> have no test at all. Evaluated on a cursor that
  \<open>close\<close> has just closed, with its one release request sent and its attributes
  cleared, \<open>fetchmany(0)\<close> returns the empty list, and \<open>setinputsizes\<close> and
  \<open>setoutputsize\<close> return.
\<close>

theorem closed_cursor_operations_return:
  "close (connect idle_client) buffered_cursor [] = (Inr (), closed_cursor, [CloseStatement 1 7]) \<and>
   fetchmany (connect idle_client) (Some 0) closed_cursor [CloseStatement 1 7] =
     (Inr [], closed_cursor, [CloseStatement 1 7]) \<and>
   setinputsizes [1::int] closed_cursor [CloseStatement 1 7] =
     (Inr (), closed_cursor, [CloseStatement 1 7]) \<and>
   setoutputsize (1::int) (None :: int option) closed_cursor [CloseStatement 1 7] =
     (Inr (), closed_cursor, [CloseStatement 1 7])"
  by (simp add: close_def fetchmany_def setinputsizes_def setoutputsize_def client_defs
      fixture_defs fixture2_defs fixture3_defs)

section \<open>The order of page requests\<close>

lemma page_offsets_append [simp]:
  "page_offsets (xs @ ys) = page_offsets xs @ page_offsets ys"
  by (induction xs rule: page_offsets.induct) simp_all

lemma paging_inv_first: "paging_inv (first_offset c) c"
  by (auto simp add: paging_inv_def first_offset_def split: option.splits)

lemma convert_and_return_paging:
  assumes "convert_and_return conn f p replaced c w = (r, c1, w1)"
    and "paging_inv offs c"
    and "replaced \<or> cursor_frame c = Some f"
  shows "w1 = w \<and> paging_inv offs c1"
  using assms
  by (auto simp add: convert_and_return_def store_row_def paging_inv_def Let_def
      split: prod.splits option.splits if_splits)

lemma paging_inv_pos_None:
  "sorted_wrt (<) offs \<Longrightarrow> cursor_pos c = None \<Longrightarrow> paging_inv offs c"
  by (simp add: paging_inv_def)

lemma fetch_next_frame_paging:
  assumes echo: "returns_requested_offset conn"
    and inv: "paging_inv offs c0"
    and f: "cursor_frame c0 = Some f" and p: "cursor_pos c0 = Some p"
    and rows: "frame_rows f \<noteq> []"
    and c: "c = c0\<lparr>cursor_pos := None\<rparr>"
    and n: "fetch_next_frame conn c w = (r, c1, w1)"
  shows "\<exists>ext. w1 = w @ ext \<and> paging_inv (offs @ page_offsets ext) c1"
proof -
  let ?off = "frame_offset f + int (length (frame_rows f))"
  let ?call = "Fetch (connection_id conn) (cursor_id c) None (Some ?off) (itersize c)"
  from inv f p have le: "\<forall>off \<in> set offs. off \<le> frame_offset f" and s: "sorted_wrt (<) offs"
    by (auto simp add: paging_inv_def)
  from rows have lt: "frame_offset f < ?off" by (cases "frame_rows f") auto
  have "off < ?off" if "off \<in> set offs" for off
    using le that lt by (meson le_less_trans)
  with s have s': "sorted_wrt (<) (offs @ [?off])"
    by (simp add: sorted_wrt_append)
  have w1: "w1 = w @ [?call]"
    using n f c by (auto simp add: fetch_next_frame_def client_defs Let_def split: sum.splits prod.splits)
  have "paging_inv (offs @ [?off]) c1"
  proof (cases "fetch (connection_client conn) w (connection_id conn) (cursor_id c) None (Some ?off) (itersize c)")
    case (Inl e)
    with n f c have "c1 = c" by (auto simp add: fetch_next_frame_def client_defs Let_def)
    with c s' show ?thesis by (simp add: paging_inv_pos_None)
  next
    case (Inr fr)
    with n f c have c1: "c1 = snd (set_frame fr c)"
      by (auto simp add: fetch_next_frame_def client_defs Let_def split: prod.splits)
    show ?thesis
    proof (cases fr)
      case None
      with c1 s' show ?thesis by (simp add: set_frame_def paging_inv_pos_None)
    next
      case (Some f')
      with Inr echo have "frame_offset f' = ?off"
        by (auto simp add: returns_requested_offset_def)
      moreover have "off \<le> ?off" if "off \<in> set offs" for off
        using le that lt by (meson le_less_trans less_imp_le)
      ultimately have "\<forall>off \<in> set (offs @ [?off]). off \<le> frame_offset f'"
        by simp
      with c1 Some s' show ?thesis
        by (auto simp add: set_frame_def paging_inv_def Let_def)
    qed
  qed
  with w1 show ?thesis by simp
qed

lemma fetchone_paging:
  assumes echo: "returns_requested_offset conn"
    and inv: "paging_inv offs c"
    and one: "fetchone conn c w = (r, c1, w1)"
  shows "\<exists>ext. w1 = w @ ext \<and> paging_inv (offs @ page_offsets ext) c1"
proof (cases "cursor_frame c")
  case None
  with one inv show ?thesis by (simp add: fetchone_def)
next
  case (Some f)
  note f = this
  show ?thesis
  proof (cases "cursor_pos c")
    case None
    with one inv f show ?thesis by (simp add: fetchone_def)
  next
    case (Some p)
    note p = this
    show ?thesis
    proof (cases "length (frame_rows f) \<le> p")
      case True
      with one inv f p show ?thesis by (simp add: fetchone_def)
    next
      case False
      then have rows: "frame_rows f \<noteq> []" by auto
      from inv have s: "sorted_wrt (<) offs" by (simp add: paging_inv_def)
      show ?thesis
      proof (cases "length (frame_rows f) \<le> p + 1")
        case last: True
        show ?thesis
        proof (cases "frame_done f")
          case True
          with one f p False last
          have "convert_and_return conn f p False (c\<lparr>cursor_pos := None\<rparr>) w = (r, c1, w1)"
            by (simp add: fetchone_def)
          from convert_and_return_paging [OF this, of offs] s f
          show ?thesis by (simp add: paging_inv_pos_None)
        next
          case nd: False
          obtain r2 c2 w2 where n: "fetch_next_frame conn (c\<lparr>cursor_pos := None\<rparr>) w = (r2, c2, w2)"
            by (cases "fetch_next_frame conn (c\<lparr>cursor_pos := None\<rparr>) w") auto
          from fetch_next_frame_paging [OF echo inv f p rows refl n]
          obtain ext where ext: "w2 = w @ ext" "paging_inv (offs @ page_offsets ext) c2" by blast
          show ?thesis
          proof (cases r2)
            case (Inl e)
            with one f p False last nd n have "c1 = c2" "w1 = w2" by (simp_all add: fetchone_def)
            with ext show ?thesis by blast
          next
            case (Inr u)
            with one f p False last nd n
            have "convert_and_return conn f p True c2 w2 = (r, c1, w1)" by (simp add: fetchone_def)
            from convert_and_return_paging [OF this ext(2)] ext(1)
            show ?thesis by blast
          qed
        qed
      next
        case more: False
        with one f p False
        have cr: "convert_and_return conn f p False (c\<lparr>cursor_pos := Some (p + 1)\<rparr>) w = (r, c1, w1)"
          by (simp add: fetchone_def)
        from inv f p have "paging_inv offs (c\<lparr>cursor_pos := Some (p + 1)\<rparr>)"
          by (auto simp add: paging_inv_def)
        from convert_and_return_paging [OF cr this] f show ?thesis by simp
      qed
    qed
  qed
qed

lemma fetchmany_loop_paging:
  assumes echo: "returns_requested_offset conn"
  shows "paging_inv (offs @ page_offsets ext) c \<Longrightarrow>
         fetchmany_loop conn k acc c (w @ ext) = (r, c1, w1) \<Longrightarrow>
         \<exists>ext1. w1 = w @ ext1 \<and> paging_inv (offs @ page_offsets ext1) c1"
proof (induction k arbitrary: acc c ext)
  case 0
  then show ?case by auto
next
  case (Suc k)
  obtain r2 c2 w2 where one: "fetchone conn c (w @ ext) = (r2, c2, w2)"
    by (cases "fetchone conn c (w @ ext)") auto
  from fetchone_paging [OF echo Suc.prems(1) one]
  obtain ext2 where ext2: "w2 = w @ ext @ ext2"
    "paging_inv (offs @ page_offsets (ext @ ext2)) c2" by auto
  show ?case
  proof (cases r2)
    case (Inl e)
    with Suc.prems(2) one have "c1 = c2" "w1 = w2" by simp_all
    with ext2 show ?thesis by blast
  next
    case (Inr row)
    show ?thesis
    proof (cases row)
      case None
      with Suc.prems(2) one Inr have "c1 = c2" "w1 = w2" by simp_all
      with ext2 show ?thesis by blast
    next
      case (Some x)
      with Suc.prems(2) one Inr ext2(1)
      have "fetchmany_loop conn k (acc @ [x]) c2 (w @ (ext @ ext2)) = (r, c1, w1)" by simp
      from Suc.IH [OF ext2(2) this] show ?thesis .
    qed
  qed
qed

lemma fetchall_loop_paging:
  assumes echo: "returns_requested_offset conn"
    and run: "fetchall_loop conn acc c w0 = Some y"
  shows "\<forall>w ext. w0 = w @ ext \<and> paging_inv (offs @ page_offsets ext) c \<longrightarrow>
           (\<exists>ext1. snd (snd y) = w @ ext1 \<and> paging_inv (offs @ page_offsets ext1) (fst (snd y)))"
proof -
  have "conn = conn \<longrightarrow>
        (\<forall>w ext. w0 = w @ ext \<and> paging_inv (offs @ page_offsets ext) c \<longrightarrow>
           (\<exists>ext1. snd (snd y) = w @ ext1 \<and> paging_inv (offs @ page_offsets ext1) (fst (snd y))))"
  proof (rule fetchall_loop.raw_induct
    [where P = "\<lambda>conn' acc c w0 y. conn' = conn \<longrightarrow>
        (\<forall>w ext. w0 = w @ ext \<and> paging_inv (offs @ page_offsets ext) c \<longrightarrow>
           (\<exists>ext1. snd (snd y) = w @ ext1 \<and> paging_inv (offs @ page_offsets ext1) (fst (snd y))))",
     OF _ run], goal_cases)
  case (1 loop conn' acc c w0 y)
  show ?case
  proof (intro impI allI, elim conjE)
    fix w ext
    assume conn': "conn' = conn" and w0: "w0 = w @ ext"
      and inv: "paging_inv (offs @ page_offsets ext) c"
    obtain r2 c2 w2 where one: "fetchone conn c (w @ ext) = (r2, c2, w2)"
      by (cases "fetchone conn c (w @ ext)") auto
    from fetchone_paging [OF echo inv one]
    obtain ext2 where ext2: "w2 = w @ ext @ ext2"
      "paging_inv (offs @ page_offsets (ext @ ext2)) c2" by auto
    show "\<exists>ext1. snd (snd y) = w @ ext1 \<and> paging_inv (offs @ page_offsets ext1) (fst (snd y))"
    proof (cases r2)
      case (Inl e)
      with 1(2) one conn' w0 have "y = (Inl e, c2, w2)" by simp
      with ext2 show ?thesis by auto
    next
      case (Inr row)
      show ?thesis
      proof (cases row)
        case None
        with 1(2) one conn' w0 Inr have "y = (Inr acc, c2, w2)" by simp
        with ext2 show ?thesis by auto
      next
        case (Some x)
        with 1(2) one conn' w0 Inr have "loop conn (acc @ [x]) c2 w2 = Some y" by simp
        from 1(1) [OF this] ext2 show ?thesis by blast
      qed
    qed
  qed
  qed
  then show ?thesis by simp
qed

lemma run_fetches_paging:
  assumes echo: "returns_requested_offset conn"
  shows "paging_inv (offs @ page_offsets ext) c \<Longrightarrow>
         run_fetches conn ops c (w @ ext) = Some (c1, w1) \<Longrightarrow>
         \<exists>ext1. w1 = w @ ext1 \<and> paging_inv (offs @ page_offsets ext1) c1"
proof (induction ops arbitrary: c ext)
  case Nil
  then show ?case by auto
next
  case (Cons x ops)
  show ?case
  proof (cases x)
    case FetchOne
    obtain r2 c2 w2 where one: "fetchone conn c (w @ ext) = (r2, c2, w2)"
      by (cases "fetchone conn c (w @ ext)") auto
    from fetchone_paging [OF echo Cons.prems(1) one]
    obtain ext2 where ext2: "w2 = w @ (ext @ ext2)"
      "paging_inv (offs @ page_offsets (ext @ ext2)) c2" by auto
    from Cons.prems(2) FetchOne one ext2(1)
    have "run_fetches conn ops c2 (w @ (ext @ ext2)) = Some (c1, w1)" by simp
    from Cons.IH [OF ext2(2) this] show ?thesis .
  next
    case (FetchMany sz)
    obtain r2 c2 w2 where many: "fetchmany conn sz c (w @ ext) = (r2, c2, w2)"
      by (cases "fetchmany conn sz c (w @ ext)") auto
    from fetchmany_loop_paging [OF echo Cons.prems(1)] many
    obtain ext2 where ext2: "w2 = w @ ext2" "paging_inv (offs @ page_offsets ext2) c2"
      unfolding fetchmany_def Let_def by blast
    from Cons.prems(2) FetchMany many ext2(1)
    have "run_fetches conn ops c2 (w @ ext2) = Some (c1, w1)" by simp
    from Cons.IH [OF ext2(2) this] show ?thesis .
  next
    case FetchAll
    with Cons.prems(2) obtain r2 c2 w2 where
      all: "fetchall_loop conn [] c (w @ ext) = Some (r2, c2, w2)"
      and rest: "run_fetches conn ops c2 w2 = Some (c1, w1)"
      by (auto simp add: fetchall_def split: option.splits)
    have "\<exists>ext1. w2 = w @ ext1 \<and> paging_inv (offs @ page_offsets ext1) c2"
      using fetchall_loop_paging [OF echo all, of offs, THEN spec, THEN spec, of w ext]
        Cons.prems(1) by simp
    then obtain ext2 where ext2: "w2 = w @ ext2" "paging_inv (offs @ page_offsets ext2) c2"
      by blast
    from Cons.IH [OF ext2(2)] rest ext2(1) show ?thesis by simp
  qed
qed

text \<open>
  C8, as the code has it. When \<open>fetchone\<close> reads the last row of a frame whose \<open>done\<close>
  flag is false, it requests the next page at the offset of that frame plus its number
  of rows, with the iteration batch size as maximum. And if every page that the client
  returns starts at the offset requested, then over any sequence of \<open>fetchone\<close>,
  \<open>fetchmany\<close> and \<open>fetchall\<close> calls that ends, the offsets requested increase
  strictly, starting above the offset of the frame the cursor was reading.
\<close>

theorem paging_requests:
  "(cursor_frame c = Some f \<and> cursor_pos c = Some p \<and> p < length (frame_rows f)
      \<and> length (frame_rows f) \<le> p + 1 \<and> \<not> frame_done f \<longrightarrow>
    snd (snd (fetchone conn c w)) =
      w @ [Fetch (connection_id conn) (cursor_id c) None
             (Some (frame_offset f + int (length (frame_rows f)))) (itersize c)])
   \<and> (returns_requested_offset conn \<and> run_fetches conn ops c w = Some (c', w') \<longrightarrow>
       (\<exists>ext. w' = w @ ext \<and> sorted_wrt (<) (first_offset c @ page_offsets ext)))"
proof (intro conjI impI)
  assume "cursor_frame c = Some f \<and> cursor_pos c = Some p \<and> p < length (frame_rows f)
      \<and> length (frame_rows f) \<le> p + 1 \<and> \<not> frame_done f"
  then show "snd (snd (fetchone conn c w)) =
      w @ [Fetch (connection_id conn) (cursor_id c) None
             (Some (frame_offset f + int (length (frame_rows f)))) (itersize c)]"
    by (auto simp add: fetchone_def fetch_next_frame_def convert_and_return_def client_defs Let_def
        split: prod.splits sum.splits option.splits)
next
  assume a: "returns_requested_offset conn \<and> run_fetches conn ops c w = Some (c', w')"
  have "paging_inv (first_offset c @ page_offsets []) c" by (simp add: paging_inv_first)
  from run_fetches_paging [OF _ this, of conn ops w c' w'] a
  show "\<exists>ext. w' = w @ ext \<and> sorted_wrt (<) (first_offset c @ page_offsets ext)"
    by (auto simp add: paging_inv_def)
qed

lemma paged_echo: "returns_requested_offset (connect paged_client)"
  by (simp add: returns_requested_offset_def fixture_defs fixture4_defs)

lemma paged_run:
  "run_fetches (connect paged_client) [FetchOne, FetchMany (Some 2), FetchAll] paging_cursor [] =
     Some (drained_cursor,
           [Fetch 1 (Some 7) None (Some 2) 2, Fetch 1 (Some 7) None (Some 4) 2])"
  by code_simp

text \<open>
  C8 at the five rows served in pages of two.
\<close>

theorem paging_requests_witness:
  "cursor_frame last_row_cursor =
     Some \<lparr>frame_rows = [ [Some ''a''], [Some ''b'']], frame_offset = 0, frame_done = False\<rparr> \<and>
   cursor_pos last_row_cursor = Some 1 \<and>
   snd (snd (fetchone (connect paged_client) last_row_cursor [])) =
     [Fetch 1 (Some 7) None (Some 2) 2000] \<and>
   returns_requested_offset (connect paged_client) \<and>
   run_fetches (connect paged_client) [FetchOne, FetchMany (Some 2), FetchAll] paging_cursor [] =
     Some (drained_cursor,
           [Fetch 1 (Some 7) None (Some 2) 2, Fetch 1 (Some 7) None (Some 4) 2]) \<and>
   sorted_wrt (<)
     (first_offset paging_cursor
      @ page_offsets [Fetch 1 (Some 7) None (Some 2) 2, Fetch 1 (Some 7) None (Some 4) 2
                      :: string call])"
  using paging_requests [of last_row_cursor
          "\<lparr>frame_rows = [ [Some ''a''], [Some ''b'']], frame_offset = 0, frame_done = False\<rparr>"
          1 "connect paged_client" "[]" "[]" last_row_cursor "[]"]
        paging_requests [of paging_cursor
          "\<lparr>frame_rows = [ [Some ''a''], [Some ''b'']], frame_offset = 0, frame_done = False\<rparr>"
          0 "connect paged_client" "[]" "[FetchOne, FetchMany (Some 2), FetchAll]" drained_cursor
          "[Fetch 1 (Some 7) None (Some 2) 2, Fetch 1 (Some 7) None (Some 4) 2]"]
        paged_echo paged_run
  by (simp add: last_row_cursor_def connect_def)

text \<open>
  C8 as stated holds for any client. A client that sends every page with offset 0
  is asked for offset 2 and then for offset 1.
\<close>

theorem paging_order_counterexample:
  "run_fetches (connect rewinding_client) [FetchOne, FetchOne, FetchOne] paging_cursor [] =
     Some (paging_cursor\<lparr>cursor_frame :=
              Some \<lparr>frame_rows = [ [Some ''c'']], frame_offset = 0, frame_done = False\<rparr>\<rparr>,
           [Fetch 1 (Some 7) None (Some 2) 2, Fetch 1 (Some 7) None (Some 1) 2])
   \<and> \<not> sorted_wrt (<)
         (page_offsets [Fetch 1 (Some 7) None (Some 2) 2, Fetch 1 (Some 7) None (Some 1) 2
                        :: string call])"
  by (simp add: fetchone_defs fixture_defs fixture4_defs)

section \<open>Fetchmany and fetchall\<close>

lemma fetchmany_loop_acc:
  "fetchmany_loop conn k acc c w =
     (case fetchmany_loop conn k [] c w of
        (Inl e, c1, w1) \<Rightarrow> (Inl e, c1, w1)
      | (Inr batch, c1, w1) \<Rightarrow> (Inr (acc @ batch), c1, w1))"
proof (induction k arbitrary: acc c w)
  case 0
  show ?case by simp
next
  case (Suc k)
  show ?case
  proof (cases "fetchone conn c w")
    case (fields r c1 w1)
    show ?thesis
    proof (cases r)
      case (Inl e)
      with fields show ?thesis by simp
    next
      case (Inr row)
      show ?thesis
      proof (cases row)
        case None
        with fields Inr show ?thesis by simp
      next
        case (Some x)
        with fields Inr Suc.IH [of "acc @ [x]" c1 w1] Suc.IH [of "[x]" c1 w1]
        show ?thesis by (simp split: prod.splits sum.splits)
      qed
    qed
  qed
qed

lemma fetchall_loop_batch:
  "fetchall_loop conn (acc @ acc2) c w =
     (case fetchmany_loop conn k acc2 c w of
        (Inl e, c1, w1) \<Rightarrow> Some (Inl e, c1, w1)
      | (Inr batch, c1, w1) \<Rightarrow>
          if length batch < length acc2 + k then Some (Inr (acc @ batch), c1, w1)
          else fetchall_loop conn (acc @ batch) c1 w1)"
proof (induction k arbitrary: acc2 c w)
  case 0
  show ?case by simp
next
  case (Suc k)
  show ?case
  proof (cases "fetchone conn c w")
    case (fields r c1 w1)
    show ?thesis
    proof (cases r)
      case (Inl e)
      with fields show ?thesis by (subst fetchall_loop.simps) simp
    next
      case (Inr row)
      show ?thesis
      proof (cases row)
        case None
        with fields Inr show ?thesis by (subst fetchall_loop.simps) simp
      next
        case (Some x)
        with fields Inr Suc.IH [of "acc2 @ [x]" c1 w1]
        show ?thesis by (subst fetchall_loop.simps) (simp split: prod.splits sum.splits)
      qed
    qed
  qed
qed

lemma fetchmany_until_implies_fetchall:
  assumes "fetchmany_until conn n acc c w = Some y"
  shows "0 < n \<longrightarrow> fetchall_loop conn acc c w = Some y"
proof (rule fetchmany_until.raw_induct
    [where P = "\<lambda>conn n acc c w y. 0 < n \<longrightarrow> fetchall_loop conn acc c w = Some y",
     OF _ assms], goal_cases)
  case (1 until conn n acc c w y)
  show ?case
  proof
    assume n: "0 < n"
    obtain r c1 w1 where b: "fetchmany_loop conn (nat n) [] c w = (r, c1, w1)"
      by (cases "fetchmany_loop conn (nat n) [] c w") auto
    have all: "fetchall_loop conn acc c w =
        (case r of
           Inl e \<Rightarrow> Some (Inl e, c1, w1)
         | Inr batch \<Rightarrow>
             if length batch < nat n then Some (Inr (acc @ batch), c1, w1)
             else fetchall_loop conn (acc @ batch) c1 w1)"
      using fetchall_loop_batch [of conn acc "[]" c w "nat n"] b by (simp split: sum.splits)
    show "fetchall_loop conn acc c w = Some y"
    proof (cases r)
      case (Inl e)
      with 1(2) b all show ?thesis by (simp add: fetchmany_def)
    next
      case (Inr batch)
      show ?thesis
      proof (cases "length batch < nat n")
        case True
        with n have "int (length batch) < n" by linarith
        with 1(2) b all Inr True show ?thesis by (simp add: fetchmany_def)
      next
        case False
        with n have "\<not> int (length batch) < n" by linarith
        with 1(2) b Inr have "until conn n (acc @ batch) c1 w1 = Some y"
          by (simp add: fetchmany_def)
        from 1(1) [OF this] n have "fetchall_loop conn (acc @ batch) c1 w1 = Some y" by simp
        with all Inr False show ?thesis by simp
      qed
    qed
  qed
qed

lemma fetchmany_until_from_full:
  "0 < n \<Longrightarrow> fetchmany_until conn n acc c w = fetchmany_until_from conn n (nat n) acc c w"
  by (subst fetchmany_until.simps)
     (auto simp add: fetchmany_until_from_def fetchmany_def split: prod.splits sum.splits)

lemma fetchall_implies_fetchmany_until_from:
  assumes "fetchall_loop conn acc c w = Some y"
  shows "\<forall>m. 0 < n \<and> 0 < m \<and> m \<le> nat n \<longrightarrow> fetchmany_until_from conn n m acc c w = Some y"
proof (rule fetchall_loop.raw_induct
    [where P = "\<lambda>conn acc c w y. \<forall>m. 0 < n \<and> 0 < m \<and> m \<le> nat n \<longrightarrow>
                  fetchmany_until_from conn n m acc c w = Some y",
     OF _ assms], goal_cases)
  case (1 loop conn acc c w y)
  show ?case
  proof (intro allI impI)
    fix m assume m: "0 < n \<and> 0 < m \<and> m \<le> nat n"
    then obtain m' where m': "m = Suc m'" by (cases m) auto
    obtain r c1 w1 where f: "fetchone conn c w = (r, c1, w1)"
      by (cases "fetchone conn c w") auto
    show "fetchmany_until_from conn n m acc c w = Some y"
    proof (cases r)
      case (Inl e)
      with 1(2) f m' show ?thesis by (auto simp add: fetchmany_until_from_def)
    next
      case (Inr row)
      show ?thesis
      proof (cases row)
        case None
        with 1(2) f m' Inr show ?thesis by (auto simp add: fetchmany_until_from_def)
      next
        case (Some x)
        with 1(2) f Inr have "loop conn (acc @ [x]) c1 w1 = Some y" by simp
        from 1(1) [OF this]
        have ih: "\<And>k. 0 < k \<Longrightarrow> k \<le> nat n \<Longrightarrow>
            fetchmany_until_from conn n k (acc @ [x]) c1 w1 = Some y"
          using m by blast
        show ?thesis
        proof (cases m')
          case 0
          from m have "fetchmany_until conn n (acc @ [x]) c1 w1 = Some y"
            using ih [of "nat n"] fetchmany_until_from_full [of n conn "acc @ [x]" c1 w1] by simp
          with f Inr Some m' 0 show ?thesis by (simp add: fetchmany_until_from_def)
        next
          case (Suc k)
          have "fetchmany_until_from conn n m' (acc @ [x]) c1 w1 = Some y"
            using ih [of m'] m m' Suc by simp
          moreover have "fetchmany_until_from conn n m acc c w =
              fetchmany_until_from conn n m' (acc @ [x]) c1 w1"
            using f Inr Some m' fetchmany_loop_acc [of conn m' "[x]" c1 w1]
            by (auto simp add: fetchmany_until_from_def split: prod.splits sum.splits)
          ultimately show ?thesis by simp
        qed
      qed
    qed
  qed
qed

text \<open>
  C9. For a positive \<open>n\<close>, calling \<open>fetchmany(n)\<close> until a call returns fewer than \<open>n\<close>
  rows and concatenating the rows is \<open>fetchall\<close>: from the same cursor and the same
  requests made so far, both return the same rows in the same order, or raise the same
  exception, or do not end, and they leave the same cursor and the same requests
  behind.
\<close>

theorem fetchmany_partition:
  assumes "0 < n"
  shows "fetchmany_until conn n [] c w = fetchall conn c w"
proof -
  have a: "fetchall_loop conn [] c w = Some y" if "fetchmany_until conn n [] c w = Some y" for y
    using fetchmany_until_implies_fetchall [OF that] assms by simp
  have b: "fetchmany_until conn n [] c w = Some y" if "fetchall_loop conn [] c w = Some y" for y
    using fetchall_implies_fetchmany_until_from [OF that, of n] assms
      fetchmany_until_from_full [OF assms, of conn "[]" c w]
    by simp
  show ?thesis
    unfolding fetchall_def
    by (cases "fetchmany_until conn n [] c w"; cases "fetchall_loop conn [] c w")
       (auto dest: a b)
qed

lemma paged_fetchall:
  "fetchall (connect paged_client) paging_cursor [] =
     Some (Inr five_rows, drained_cursor,
           [Fetch 1 (Some 7) None (Some 2) 2, Fetch 1 (Some 7) None (Some 4) 2])"
  by code_simp

text \<open>
  C9 at the five rows served in pages of two, fetched two at a time.
\<close>

theorem fetchmany_partition_witness:
  "(0::int) < 2 \<and>
   fetchmany_until (connect paged_client) 2 [] paging_cursor [] =
     Some (Inr five_rows, drained_cursor,
           [Fetch 1 (Some 7) None (Some 2) 2, Fetch 1 (Some 7) None (Some 4) 2])"
  using fetchmany_partition [of 2 "connect paged_client" paging_cursor "[]"] paged_fetchall
  by simp

section \<open>Execute without a result\<close>

text \<open>
  C10. When \<open>execute\<close> is called without parameters on an open cursor and
  \<open>prepareAndExecute\<close> returns the empty list, the call returns after that one request
  and the cursor is as before except for the update count, which is -1. A \<open>fetchone\<close>
  that follows does on it what it would have done on the cursor before the call; in
  particular, when a row is buffered at the position and no next page is needed, it
  returns that row converted.
\<close>

theorem execute_empty_results_keeps_cursor:
  assumes "\<not> cursor_closed c"
    and "prepareAndExecute (connection_client conn) w (connection_id conn) (cursor_id c)
           operation (itersize c) = Inr []"
  shows "execute conn operation None c w =
           (Inr (), c\<lparr>cursor_updatecount := - 1\<rparr>,
            w @ [PrepareAndExecute (connection_id conn) (cursor_id c) operation (itersize c)])
         \<and> fetchone conn (c\<lparr>cursor_updatecount := - 1\<rparr>) w' =
             (case fetchone conn c w' of (r, c1, w1) \<Rightarrow> (r, c1\<lparr>cursor_updatecount := - 1\<rparr>, w1))
         \<and> (cursor_frame c = Some f \<and> cursor_pos c = Some p \<and> p < length (frame_rows f)
              \<and> (Suc p < length (frame_rows f) \<or> frame_done f) \<longrightarrow>
             fst (fetchone conn (c\<lparr>cursor_updatecount := - 1\<rparr>) w') =
               (case convert_row conn (cursor_data_types c) (frame_rows f ! p) of
                  (None, row) \<Rightarrow> Inr (Some row)
                | (Some e, row) \<Rightarrow> Inl e))"
proof -
  have "execute conn operation None c w =
           (Inr (), c\<lparr>cursor_updatecount := - 1\<rparr>,
            w @ [PrepareAndExecute (connection_id conn) (cursor_id c) operation (itersize c)])"
    using assms by (simp add: execute_def client_defs)
  moreover have "fetchone conn (c\<lparr>cursor_updatecount := - 1\<rparr>) w' =
             (case fetchone conn c w' of (r, c1, w1) \<Rightarrow> (r, c1\<lparr>cursor_updatecount := - 1\<rparr>, w1))"
    by (rule fetchone_updatecount)
  moreover have "fst (fetchone conn (c\<lparr>cursor_updatecount := - 1\<rparr>) w') =
               (case convert_row conn (cursor_data_types c) (frame_rows f ! p) of
                  (None, row) \<Rightarrow> Inr (Some row)
                | (Some e, row) \<Rightarrow> Inl e)"
    if "cursor_frame c = Some f" "cursor_pos c = Some p" "p < length (frame_rows f)"
      "Suc p < length (frame_rows f) \<or> frame_done f"
    using fetchone_buffered_row(1) [of "c\<lparr>cursor_updatecount := - 1\<rparr>" f p conn w'] that
    by simp
  ultimately show ?thesis by blast
qed

text \<open>
  C10 at a cursor that has read one of two buffered rows.
\<close>

theorem execute_empty_results_keeps_cursor_witness:
  "\<not> cursor_closed buffered_cursor \<and>
   prepareAndExecute (connection_client (connect idle_client)) [] 1 (Some 7) ''select 2'' 2000
     = Inr [] \<and>
   execute (connect idle_client) ''select 2'' None buffered_cursor [] =
     (Inr (), buffered_cursor\<lparr>cursor_updatecount := - 1\<rparr>,
      [PrepareAndExecute 1 (Some 7) ''select 2'' 2000]) \<and>
   fst (fetchone (connect idle_client) (buffered_cursor\<lparr>cursor_updatecount := - 1\<rparr>)
          [PrepareAndExecute 1 (Some 7) ''select 2'' 2000]) = Inr (Some [Some ''b''])"
  using execute_empty_results_keeps_cursor [of buffered_cursor "connect idle_client" "[]"
      "''select 2''" "[PrepareAndExecute 1 (Some 7) ''select 2'' 2000]"
      "\<lparr>frame_rows = [ [Some ''a''], [Some ''b'']], frame_offset = 0, frame_done = True\<rparr>" 1]
  by (simp add: fixture_defs fixture2_defs fetchone_def convert_and_return_def store_row_def)

end
